theory Spec2Isabelle
  imports Main "HOL-Library.Word"
begin

section \<open>Machine integers, durations and instants\<close>

text \<open>
  Go's \<open>int\<close> (on a 64-bit platform) and \<open>time.Duration\<close> (an \<open>int64\<close> count of
  nanoseconds) are 64-bit two's-complement integers: multiplication wraps around and
  \<open>sint\<close> reads the signed value. The conversion \<open>time.Duration(value)\<close> between the
  two is then the identity.
\<close>

type_synonym go_int = "64 word"
type_synonym Duration = "64 word"

definition Second :: Duration where
  "Second = 1000000000"

definition Minute :: Duration where
  "Minute = 60 * Second"

definition Hour :: Duration where
  "Hour = 60 * Minute"

section \<open>The duration resolver\<close>

text \<open>
  \<open>parseDuration\<close> returns the duration and, as a second component, the lines it
  printed on standard output with \<open>fmt.Printf\<close>.
\<close>

definition parseDuration :: "go_int \<Rightarrow> string \<Rightarrow> Duration \<times> string list" where
  "parseDuration v unit =
     (if unit = ''SECONDS'' then (v * Second, [])
      else if unit = ''MINUTES'' then (v * Minute, [])
      else if unit = ''HOURS'' then (v * Hour, [])
      else (v * Second,
            [''Warning: Unknown time unit '' @ [CHR 0x27] @ unit @ [CHR 0x27] @
             '', defaulting to SECONDS'']))"

text \<open>
  The scale the specification gives each unit, in whole seconds; an unrecognised unit
  counts as seconds. This follows the specification's wording (section 4.1) and is what
  \<open>parseDuration\<close> is compared with.
\<close>

definition spec_unit_seconds :: "string \<Rightarrow> int" where
  "spec_unit_seconds unit =
     (if unit = ''MINUTES'' then 60 else if unit = ''HOURS'' then 3600 else 1)"

section \<open>Failures\<close>

text \<open>
  A Go \<open>error\<close> made with \<open>errors.New\<close> is identified by its message; an error
  handed on from the token library is one of the library's sentinel errors; a nil
  dereference is a panic, which unwinds through every caller.
\<close>

datatype jwt_error =
    ErrTokenMalformed
  | ErrTokenUnverifiable
  | ErrTokenSignatureInvalid
  | ErrTokenExpired
  | ErrTokenNotValidYet
  | ErrInvalidKeyType
  | ErrHashUnavailable

datatype failure = errors_New string | JwtError jwt_error | Panic

section \<open>The logger\<close>

text \<open>
  The five places a log line can be written to: the two console streams and the three
  files \<open>info.log\<close>, \<open>warn.log\<close> and \<open>error.log\<close> that \<open>setupLogging\<close> opens
  under the log directory. A \<open>log.Logger\<close> is its prefix and the sinks of its
  \<open>io.MultiWriter\<close>. The package variables are nil until \<open>setupLogging\<close> has run.
\<close>

datatype sink = Stdout | Stderr | InfoFile | WarnFile | ErrorFile

record Logger =
  prefix :: string
  writer :: "sink list"

record log_state =
  infoLog :: "Logger option"
  warnLog :: "Logger option"
  errorLog :: "Logger option"
  stdLogOutput :: "sink list"
  written :: "sink \<Rightarrow> string list"

text \<open>
  \<open>setupLogging\<close>: \<open>mkdir_ok\<close> and \<open>open_ok\<close> say whether \<open>os.MkdirAll\<close> and
  each \<open>os.OpenFile\<close> succeed; \<open>log.Fatalf\<close> ends the process (\<open>None\<close>).
\<close>

definition openLogFile :: "(sink \<Rightarrow> bool) \<Rightarrow> sink \<Rightarrow> sink option" where
  "openLogFile open_ok path = (if open_ok path then Some path else None)"

definition setupLogging :: "bool \<Rightarrow> (sink \<Rightarrow> bool) \<Rightarrow> log_state \<Rightarrow> log_state option" where
  "setupLogging mkdir_ok open_ok st =
     (if \<not> mkdir_ok then None
      else case openLogFile open_ok InfoFile of None \<Rightarrow> None | Some infoFile \<Rightarrow>
           case openLogFile open_ok WarnFile of None \<Rightarrow> None | Some warnFile \<Rightarrow>
           case openLogFile open_ok ErrorFile of None \<Rightarrow> None | Some errorFile \<Rightarrow>
             (let infoWriter = [Stdout, infoFile];
                  warnWriter = [Stdout, warnFile];
                  errorWriter = [Stderr, errorFile]
              in Some (st\<lparr>infoLog := Some \<lparr>prefix = ''INFO: '', writer = infoWriter\<rparr>,
                          warnLog := Some \<lparr>prefix = ''WARNING: '', writer = warnWriter\<rparr>,
                          errorLog := Some \<lparr>prefix = ''ERROR: '', writer = errorWriter\<rparr>,
                          stdLogOutput := infoWriter\<rparr>)))"

text \<open>
  \<open>getCallerInfo\<close>: the argument is the function name \<open>runtime.Caller(2)\<close> finds,
  \<open>None\<close> when it finds none.
\<close>

definition getCallerInfo :: "string option \<Rightarrow> string" where
  "getCallerInfo caller = (case caller of None \<Rightarrow> ''unknown'' | Some name \<Rightarrow> name)"

text \<open>
  \<open>Println\<close> of a logger with the flags \<open>Ldate|Ltime\<close> writes one line, the prefix,
  the date and time (\<open>stamp\<close>) and the text, to every sink of its writer. On a nil
  logger it panics.
\<close>

definition Println :: "Logger option \<Rightarrow> string \<Rightarrow> string \<Rightarrow> log_state \<Rightarrow> failure + log_state" where
  "Println logger stamp s st =
     (case logger of
        None \<Rightarrow> Inl Panic
      | Some l \<Rightarrow>
          Inr (st\<lparr>written := (\<lambda>k. if k \<in> set (writer l)
                                      then written st k @ [prefix l @ stamp @ '' '' @ s]
                                      else written st k)\<rparr>))"

text \<open>
  \<open>Log\<close>: \<open>message\<close> is the text \<open>fmt.Sprintf(format, v...)\<close> produced. The mutex
  makes the call atomic, which a sequential run is anyway.
\<close>

definition Log :: "string \<Rightarrow> string \<Rightarrow> string option \<Rightarrow> string \<Rightarrow> log_state \<Rightarrow> failure + log_state" where
  "Log level message caller stamp st =
     (let logEntry = level @ '' ['' @ getCallerInfo caller @ '']: '' @ message
      in if level = ''INFO'' then Println (infoLog st) stamp logEntry st
         else if level = ''WARNING'' then Println (warnLog st) stamp logEntry st
         else if level = ''ERROR'' then Println (errorLog st) stamp logEntry st
         else Println (infoLog st) stamp logEntry st)"

definition Info :: "string \<Rightarrow> string option \<Rightarrow> string \<Rightarrow> log_state \<Rightarrow> failure + log_state" where
  "Info message caller stamp st = Log ''INFO'' message caller stamp st"

definition Warn :: "string \<Rightarrow> string option \<Rightarrow> string \<Rightarrow> log_state \<Rightarrow> failure + log_state" where
  "Warn message caller stamp st = Log ''WARNING'' message caller stamp st"

definition Error :: "string \<Rightarrow> string option \<Rightarrow> string \<Rightarrow> log_state \<Rightarrow> failure + log_state" where
  "Error message caller stamp st = Log ''ERROR'' message caller stamp st"

section \<open>Instants and the clock\<close>

text \<open>
  An instant (\<open>time.Time\<close>) is its count of nanoseconds since the Unix epoch.
  \<open>time.Now()\<close> is the only input the token functions read besides their arguments
  and the package variables: a call is given the readings it will observe, \<open>clk 0\<close>
  the first, \<open>clk 1\<close> the second, and so on, and hands a callee the readings left
  (\<open>advance\<close>).
\<close>

type_synonym Time = int
type_synonym clock = "nat \<Rightarrow> Time"

definition advance :: "nat \<Rightarrow> clock \<Rightarrow> clock" where
  "advance n clk = (\<lambda>i. clk (i + n))"

definition Before :: "Time \<Rightarrow> Time \<Rightarrow> bool" where
  "Before t u = (t < u)"

definition Add :: "Time \<Rightarrow> Duration \<Rightarrow> Time" where
  "Add t d = t + sint d"

text \<open>
  \<open>jwt.NewNumericDate\<close> rounds an instant down to the library's \<open>TimePrecision\<close>,
  one second unless the program changes it (this one does not).
\<close>

definition NewNumericDate :: "Time \<Rightarrow> Time" where
  "NewNumericDate t = t - t mod 1000000000"

section \<open>Users, claims and the package variables\<close>

text \<open>The three fields of \<open>model.User\<close> the token functions read.\<close>

record User =
  ID :: "64 word"
  Username :: string
  Email :: string

text \<open>
  \<open>Claims\<close> with the fields of the embedded \<open>jwt.RegisteredClaims\<close> the program
  sets or reads; \<open>ExpiresAt\<close> and \<open>IssuedAt\<close> are pointers, nil being \<open>None\<close>.
\<close>

record Claims =
  UserID :: "64 word"
  Username :: string
  Email :: string
  ExpiresAt :: "Time option"
  IssuedAt :: "Time option"
  Subject :: string

record Globals =
  accessSecret :: string
  refreshSecret :: string
  accessExpiry :: Duration
  refreshExpiry :: Duration

text \<open>
  The configuration \<open>config.GetConfig()\<close> returns (\<open>None\<close> for nil); indexing a Go
  map at a missing key gives the zero value.
\<close>

record Authentication =
  SecretKeys :: "string \<rightharpoonup> string"
  SessionTimeouts :: "string \<rightharpoonup> go_int"
  TimeUnits :: "string \<rightharpoonup> string"

definition index_string :: "(string \<rightharpoonup> string) \<Rightarrow> string \<Rightarrow> string" where
  "index_string m k = (case m k of None \<Rightarrow> [] | Some v \<Rightarrow> v)"

definition index_int :: "(string \<rightharpoonup> go_int) \<Rightarrow> string \<Rightarrow> go_int" where
  "index_int m k = (case m k of None \<Rightarrow> 0 | Some v \<Rightarrow> v)"

definition init :: "Authentication option \<Rightarrow> failure + (Globals \<times> string list)" where
  "init cfg =
     (case cfg of
        None \<Rightarrow> Inl Panic
      | Some a \<Rightarrow>
          (let (ae, out1) = parseDuration (index_int (SessionTimeouts a) ''ACCESS'')
                                          (index_string (TimeUnits a) ''ACCESS'');
               (re, out2) = parseDuration (index_int (SessionTimeouts a) ''REFRESH'')
                                          (index_string (TimeUnits a) ''REFRESH'')
           in Inr (\<lparr>accessSecret = index_string (SecretKeys a) ''ACCESS'',
                     refreshSecret = index_string (SecretKeys a) ''REFRESH'',
                     accessExpiry = ae,
                     refreshExpiry = re\<rparr>, out1 @ out2)))"

section \<open>The token library\<close>

text \<open>
  The program signs and parses tokens with the library \<open>golang-jwt\<close>, which is not
  part of it. The library is a parameter of the model: \<open>SignedString lib key claims\<close>
  is \<open>jwt.NewWithClaims(jwt.SigningMethodHS256, claims).SignedString(key)\<close>, and
  \<open>ParseWithClaims lib tokenStr key now\<close> is \<open>jwt.ParseWithClaims\<close> on a key
  function that returns \<open>key\<close>, \<open>now\<close> being the reading of the clock the library
  takes while it validates. A parsed token carries its claims (\<open>None\<close> when they are
  not a \<open>*Claims\<close>) and the flag \<open>Valid\<close>.
\<close>

record Token =
  TokenClaims :: "Claims option"
  Valid :: bool

record jwt_lib =
  SignedString :: "string \<Rightarrow> Claims \<Rightarrow> jwt_error + string"
  ParseWithClaims :: "string \<Rightarrow> string \<Rightarrow> Time \<Rightarrow> jwt_error + Token"

section \<open>Issuing, validating and refreshing tokens\<close>

text \<open>
  The \<open>Claims\<close> literal \<open>generateToken\<close> builds: the first reading of the clock
  goes into \<open>ExpiresAt\<close>, the second into \<open>IssuedAt\<close>.
\<close>

definition generateToken_claims :: "User \<Rightarrow> Duration \<Rightarrow> clock \<Rightarrow> Claims" where
  "generateToken_claims u expiry clk =
     \<lparr>UserID = ID u,
      Username = User.Username u,
      Email = User.Email u,
      ExpiresAt = Some (NewNumericDate (Add (clk 0) expiry)),
      IssuedAt = Some (NewNumericDate (clk 1)),
      Subject = User.Email u\<rparr>"

text \<open>A nil \<open>user\<close> (\<open>None\<close>) is dereferenced, which panics.\<close>

definition generateToken :: "jwt_lib \<Rightarrow> User option \<Rightarrow> string \<Rightarrow> Duration \<Rightarrow> clock \<Rightarrow> failure + string" where
  "generateToken lib user secret expiry clk =
     (case user of
        None \<Rightarrow> Inl Panic
      | Some u \<Rightarrow>
          (let claims = generateToken_claims u expiry clk
           in case SignedString lib secret claims of
                Inl e \<Rightarrow> Inl (JwtError e)
              | Inr s \<Rightarrow> Inr s))"

definition GenerateTokens :: "jwt_lib \<Rightarrow> Globals \<Rightarrow> User option \<Rightarrow> clock \<Rightarrow> failure + string \<times> string" where
  "GenerateTokens lib g user clk =
     (case generateToken lib user (accessSecret g) (accessExpiry g) clk of
        Inl err \<Rightarrow> Inl err
      | Inr accessToken \<Rightarrow>
          (case generateToken lib user (refreshSecret g) (refreshExpiry g) (advance 2 clk) of
             Inl err \<Rightarrow> Inl err
           | Inr refreshToken \<Rightarrow> Inr (accessToken, refreshToken)))"

text \<open>
  \<open>ValidateToken\<close>: the library takes the first reading of the clock, the explicit
  check the second. \<open>claims.ExpiresAt.Time\<close> on a token without \<open>ExpiresAt\<close>
  dereferences nil.
\<close>

definition ValidateToken :: "jwt_lib \<Rightarrow> Globals \<Rightarrow> string \<Rightarrow> bool \<Rightarrow> clock \<Rightarrow> failure + Claims" where
  "ValidateToken lib g tokenStr isRefresh clk =
     (let secret = (if isRefresh then refreshSecret g else accessSecret g)
      in case ParseWithClaims lib tokenStr secret (clk 0) of
           Inl err \<Rightarrow> Inl (errors_New ''invalid or malformed token'')
         | Inr token \<Rightarrow>
             (case TokenClaims token of
                None \<Rightarrow> Inl (errors_New ''invalid token claims'')
              | Some claims \<Rightarrow>
                  if \<not> Valid token then Inl (errors_New ''invalid token claims'')
                  else (case ExpiresAt claims of
                          None \<Rightarrow> Inl Panic
                        | Some e \<Rightarrow>
                            if Before e (clk 1) then Inl (errors_New ''token has expired'')
                            else Inr claims)))"

text \<open>
  \<open>RefreshTokens\<close>: \<open>ValidateToken\<close> takes the first two readings of the clock, the
  second expiry check the third, \<open>GenerateTokens\<close> the four after it.
\<close>

definition RefreshTokens :: "jwt_lib \<Rightarrow> Globals \<Rightarrow> string \<Rightarrow> clock \<Rightarrow> failure + string \<times> string" where
  "RefreshTokens lib g refreshToken clk =
     (case ValidateToken lib g refreshToken True clk of
        Inl Panic \<Rightarrow> Inl Panic
      | Inl err \<Rightarrow> Inl (errors_New ''invalid or expired refresh token'')
      | Inr claims \<Rightarrow>
          (case ExpiresAt claims of
             None \<Rightarrow> Inl Panic
           | Some e \<Rightarrow>
               if Before e (clk 2) then Inl (errors_New ''refresh token has expired'')
               else (case GenerateTokens lib g
                            (Some \<lparr>ID = UserID claims,
                                   User.Username = Username claims,
                                   User.Email = Email claims\<rparr>)
                            (advance 3 clk) of
                       Inl Panic \<Rightarrow> Inl Panic
                     | Inl err \<Rightarrow> Inl (errors_New ''failed to generate new tokens'')
                     | Inr (newAccessToken, newRefreshToken) \<Rightarrow>
                         Inr (newAccessToken, newRefreshToken))))"

section \<open>What the program relies on in the library\<close>

text \<open>
  The library's own expiry check (\<open>verifyExpiresAt\<close> with no leeway): a token is
  expired unless the library's reading of the clock is before \<open>ExpiresAt\<close>; a token
  without \<open>ExpiresAt\<close> never expires.
\<close>

definition lib_expired :: "Claims \<Rightarrow> Time \<Rightarrow> bool" where
  "lib_expired c now = (case ExpiresAt c of None \<Rightarrow> False | Some e \<Rightarrow> \<not> Before now e)"

text \<open>
  The contract of the library, for the tokens it signs: signing with a byte-string key
  succeeds; and a signed token, parsed with the key it was signed with, is refused
  when expired and otherwise gives back the claims that were signed, marked valid
  (serialisation loses nothing). The contract says nothing of a token parsed with a key
  other than the one it was signed with.
\<close>

definition jwt_contract :: "jwt_lib \<Rightarrow> bool" where
  "jwt_contract lib \<longleftrightarrow>
     (\<forall>key c. \<exists>tok. SignedString lib key c = Inr tok) \<and>
     (\<forall>key c tok now.
        SignedString lib key c = Inr tok \<longrightarrow>
        ParseWithClaims lib tok key now =
          (if lib_expired c now then Inl ErrTokenExpired
           else Inr \<lparr>TokenClaims = Some c, Valid = True\<rparr>))"

section \<open>A reference library\<close>

text \<open>
  An executable library with the interface above, on which the functions can be run on
  concrete tokens. A token is the text of its claims followed by the key; numbers are
  written in unary and strings with their length in front, so that a token can be read
  back. It has the behaviour the contract asks for and no cryptography, and it refuses
  a token under every key but the one it was signed with.
\<close>

definition enc_nat :: "nat \<Rightarrow> string" where
  "enc_nat n = replicate n (CHR ''1'') @ ''.''"

definition dec_nat :: "string \<Rightarrow> (nat \<times> string) option" where
  "dec_nat s =
     (case dropWhile (\<lambda>c. c = CHR ''1'') s of
        [] \<Rightarrow> None
      | c # r \<Rightarrow>
          if c = CHR ''.'' then Some (length (takeWhile (\<lambda>c. c = CHR ''1'') s), r)
          else None)"

definition enc_str :: "string \<Rightarrow> string" where
  "enc_str x = enc_nat (length x) @ x"

definition dec_str :: "string \<Rightarrow> (string \<times> string) option" where
  "dec_str s =
     (case dec_nat s of
        None \<Rightarrow> None
      | Some (n, r) \<Rightarrow> if length r < n then None else Some (take n r, drop n r))"

definition enc_time :: "Time option \<Rightarrow> string" where
  "enc_time t =
     (case t of
        None \<Rightarrow> ''n''
      | Some i \<Rightarrow> (if 0 \<le> i then ''+'' else ''-'') @ enc_nat (nat \<bar>i\<bar>))"

definition dec_time :: "string \<Rightarrow> (Time option \<times> string) option" where
  "dec_time s =
     (case s of
        [] \<Rightarrow> None
      | c # r \<Rightarrow>
          if c = CHR ''n'' then Some (None, r)
          else if c = CHR ''+'' then
            (case dec_nat r of None \<Rightarrow> None | Some (n, r') \<Rightarrow> Some (Some (int n), r'))
          else if c = CHR ''-'' then
            (case dec_nat r of None \<Rightarrow> None | Some (n, r') \<Rightarrow> Some (Some (- int n), r'))
          else None)"

definition ref_encode :: "string \<Rightarrow> Claims \<Rightarrow> string" where
  "ref_encode key c =
     enc_nat (unat (UserID c)) @ enc_str (Username c) @ enc_str (Email c) @
     enc_time (ExpiresAt c) @ enc_time (IssuedAt c) @ enc_str (Subject c) @ enc_str key"

definition ref_decode :: "string \<Rightarrow> (string \<times> Claims) option" where
  "ref_decode s =
     (case dec_nat s of None \<Rightarrow> None | Some (uid, s1) \<Rightarrow>
      case dec_str s1 of None \<Rightarrow> None | Some (un, s2) \<Rightarrow>
      case dec_str s2 of None \<Rightarrow> None | Some (em, s3) \<Rightarrow>
      case dec_time s3 of None \<Rightarrow> None | Some (ex, s4) \<Rightarrow>
      case dec_time s4 of None \<Rightarrow> None | Some (ia, s5) \<Rightarrow>
      case dec_str s5 of None \<Rightarrow> None | Some (sub, s6) \<Rightarrow>
      case dec_str s6 of None \<Rightarrow> None | Some (key, s7) \<Rightarrow>
        if s7 = [] \<and> uid < 2 ^ 64
        then Some (key, \<lparr>UserID = of_nat uid, Username = un, Email = em,
                          ExpiresAt = ex, IssuedAt = ia, Subject = sub\<rparr>)
        else None)"

definition ref_jwt :: jwt_lib where
  "ref_jwt =
     \<lparr>SignedString = (\<lambda>key c. Inr (ref_encode key c)),
      ParseWithClaims = (\<lambda>tokenStr key now.
        case ref_decode tokenStr of
          None \<Rightarrow> Inl ErrTokenMalformed
        | Some (k, c) \<Rightarrow>
            if k \<noteq> key then Inl ErrTokenSignatureInvalid
            else if lib_expired c now then Inl ErrTokenExpired
            else Inr \<lparr>TokenClaims = Some c, Valid = True\<rparr>)\<rparr>"

section \<open>A library with the key preparation of HMAC\<close>



section \<open>An example configuration\<close>

definition example_config :: Authentication where
  "example_config =
     \<lparr>SecretKeys = [''ACCESS'' \<mapsto> ''access-key'', ''REFRESH'' \<mapsto> ''refresh-key''],
      SessionTimeouts = [''ACCESS'' \<mapsto> 15, ''REFRESH'' \<mapsto> 7],
      TimeUnits = [''ACCESS'' \<mapsto> ''MINUTES'', ''REFRESH'' \<mapsto> ''HOURS'']\<rparr>"

definition example_globals :: Globals where
  "example_globals =
     \<lparr>accessSecret = ''access-key'', refreshSecret = ''refresh-key'',
      accessExpiry = 15 * Minute, refreshExpiry = 7 * Hour\<rparr>"

definition example_user :: User where
  "example_user = \<lparr>ID = 42, Username = ''alice'', Email = ''alice@example.org''\<rparr>"

text \<open>
  The claims of an access token issued to the example user at the instant 0, and that
  token as the reference library signs it. It expires 900 seconds later.
\<close>

definition example_claims :: Claims where
  "example_claims = generateToken_claims example_user (accessExpiry example_globals) (\<lambda>i. 0)"

definition example_token :: string where
  "example_token = ref_encode (accessSecret example_globals) example_claims"

text \<open>The same for a refresh token, which expires 25200 seconds after the instant 0.\<close>

definition example_refresh_claims :: Claims where
  "example_refresh_claims =
     generateToken_claims example_user (refreshExpiry example_globals) (\<lambda>i. 0)"

definition example_refresh_token :: string where
  "example_refresh_token = ref_encode (refreshSecret example_globals) example_refresh_claims"



text \<open>A library whose signing always fails, to exercise the failure of the issuer.\<close>

definition failing_jwt :: jwt_lib where
  "failing_jwt = ref_jwt\<lparr>SignedString := (\<lambda>key c. Inl ErrHashUnavailable)\<rparr>"

section \<open>The reference library meets the contract\<close>

lemma dropWhile_ones:
  "dropWhile (\<lambda>c. c = CHR ''1'') (replicate n (CHR ''1'') @ CHR ''.'' # r) = CHR ''.'' # r"
  by (induction n) simp_all

lemma takeWhile_ones:
  "takeWhile (\<lambda>c. c = CHR ''1'') (replicate n (CHR ''1'') @ CHR ''.'' # r) =
     replicate n (CHR ''1'')"
  by (induction n) simp_all

lemma dec_enc_nat: "dec_nat (enc_nat n @ r) = Some (n, r)"
  by (simp add: dec_nat_def enc_nat_def dropWhile_ones takeWhile_ones)

lemma dec_enc_str: "dec_str (enc_str x @ r) = Some (x, r)"
  by (simp add: dec_str_def enc_str_def dec_enc_nat)

lemma dec_enc_time: "dec_time (enc_time t @ r) = Some (t, r)"
  by (cases t) (simp_all add: dec_time_def enc_time_def dec_enc_nat)

lemma ref_decode_encode: "ref_decode (ref_encode key c) = Some (key, c)"
proof -
  have "dec_str (enc_str key) = Some (key, [])"
    using dec_enc_str [of key "[]"] by simp
  moreover have "unat (UserID c) < 2 ^ 64"
    using unsigned_less [of "UserID c"] by simp
  ultimately show ?thesis
    by (simp add: ref_decode_def ref_encode_def dec_enc_nat dec_enc_str dec_enc_time)
qed

lemma ref_jwt_contract: "jwt_contract ref_jwt"
  by (simp add: jwt_contract_def ref_jwt_def ref_decode_encode)

section \<open>Properties of the duration resolver\<close>

lemma sint_mult_in_range:
  fixes v c :: "64 word"
  assumes "- (2 ^ 63) \<le> sint v * sint c" and "sint v * sint c < 2 ^ 63"
  shows "sint (v * c) = sint v * sint c"
  using assms by (simp add: sint_word_ariths signed_take_bit_int_eq_self)

lemma sint_Second: "sint Second = 1000000000"
  by (simp add: Second_def)

lemma sint_Minute: "sint Minute = 60000000000"
  by (simp add: Second_def Minute_def)

lemma sint_Hour: "sint Hour = 3600000000000"
  by (simp add: Second_def Minute_def Hour_def)

text \<open>
  C7, as amended. \<open>parseDuration\<close> is total. Whenever the value scaled by its unit is a
  duration a 64-bit count of nanoseconds can hold, the result is that duration: the
  value times one second for \<open>SECONDS\<close>, sixty for \<open>MINUTES\<close>, 3600 for \<open>HOURS\<close>, and
  one second for any other unit. The recognised units print nothing; any other unit
  prints exactly one warning, which names the unit.
\<close>

theorem parseDuration_scaled:
  assumes "- (2 ^ 63) \<le> sint v * (spec_unit_seconds unit * 1000000000)"
    and "sint v * (spec_unit_seconds unit * 1000000000) < 2 ^ 63"
  shows "sint (fst (parseDuration v unit)) = sint v * (spec_unit_seconds unit * 1000000000) \<and>
         snd (parseDuration v unit) =
           (if unit = ''SECONDS'' \<or> unit = ''MINUTES'' \<or> unit = ''HOURS'' then []
            else [''Warning: Unknown time unit '' @ [CHR 0x27] @ unit @ [CHR 0x27] @
                  '', defaulting to SECONDS''])"
  using assms
  by (auto simp add: parseDuration_def spec_unit_seconds_def sint_mult_in_range
      sint_Second sint_Minute sint_Hour)

text \<open>
  Five minutes are 300 seconds and print nothing; five of the unknown unit \<open>BOGUS\<close>
  are five seconds and print one warning.
\<close>

theorem parseDuration_scaled_witness:
  "sint (fst (parseDuration 5 ''MINUTES'')) = 300 * 1000000000 \<and>
   snd (parseDuration 5 ''MINUTES'') = [] \<and>
   sint (fst (parseDuration 5 ''BOGUS'')) = 5 * 1000000000 \<and>
   length (snd (parseDuration 5 ''BOGUS'')) = 1"
  using parseDuration_scaled [of 5 "''MINUTES''"] parseDuration_scaled [of 5 "''BOGUS''"]
  by (simp add: spec_unit_seconds_def)

text \<open>
  C7 as stated fails for a value whose scaled duration does not fit: 9223372037 seconds
  are more than \<open>2 ^ 63\<close> nanoseconds, the multiplication wraps around and the result
  is a negative duration.
\<close>

theorem parseDuration_overflow:
  "sint (fst (parseDuration 9223372037 ''SECONDS'')) = - 9223372036709551616 \<and>
   sint (fst (parseDuration 9223372037 ''SECONDS'')) \<noteq>
     9223372037 * (spec_unit_seconds ''SECONDS'' * 1000000000)"
  by (simp add: parseDuration_def Second_def spec_unit_seconds_def)

section \<open>Consequences of the contract\<close>

lemma init_example: "init (Some example_config) = Inr (example_globals, [])"
  by (simp add: init_def example_config_def example_globals_def parseDuration_def
      index_int_def index_string_def)

lemma contract_sign:
  "jwt_contract lib \<Longrightarrow> \<exists>tok. SignedString lib key c = Inr tok"
  by (simp add: jwt_contract_def)

lemma contract_parse:
  "jwt_contract lib \<Longrightarrow> SignedString lib key c = Inr tok \<Longrightarrow>
   ParseWithClaims lib tok key now =
     (if lib_expired c now then Inl ErrTokenExpired
      else Inr \<lparr>TokenClaims = Some c, Valid = True\<rparr>)"
  unfolding jwt_contract_def by blast

text \<open>
  What \<open>ValidateToken\<close> does with a token the library signed with the secret it
  selects.
\<close>

lemma ValidateToken_signed:
  assumes "jwt_contract lib" and "SignedString lib key c = Inr tok"
    and "key = (if isRefresh then refreshSecret g else accessSecret g)"
  shows "ValidateToken lib g tok isRefresh clk =
     (case ExpiresAt c of
        None \<Rightarrow> Inl Panic
      | Some e \<Rightarrow>
          if \<not> clk 0 < e then Inl (errors_New ''invalid or malformed token'')
          else if e < clk 1 then Inl (errors_New ''token has expired'')
          else Inr c)"
  using contract_parse [OF assms(1,2)] assms(3)
  by (simp add: ValidateToken_def lib_expired_def Before_def split: option.splits)

lemma ref_parse_garbage:
  "ParseWithClaims ref_jwt ''not-a-token'' key now = Inl ErrTokenMalformed"
  by (simp add: ref_jwt_def ref_decode_def dec_nat_def)

lemma ref_sign: "SignedString ref_jwt key c = Inr (ref_encode key c)"
  by (simp add: ref_jwt_def)

lemma ref_parse_signed:
  "ParseWithClaims ref_jwt (ref_encode key c) key' now =
     (if key' \<noteq> key then Inl ErrTokenSignatureInvalid
      else if lib_expired c now then Inl ErrTokenExpired
      else Inr \<lparr>TokenClaims = Some c, Valid = True\<rparr>)"
  by (simp add: ref_jwt_def ref_decode_encode)

lemma ref_sign_example:
  "SignedString ref_jwt (accessSecret example_globals) example_claims = Inr example_token"
  by (simp add: ref_sign example_token_def)

lemma example_claims_simps:
  "UserID example_claims = 42"
  "Username example_claims = ''alice''"
  "Email example_claims = ''alice@example.org''"
  "Subject example_claims = ''alice@example.org''"
  "ExpiresAt example_claims = Some 900000000000"
  "IssuedAt example_claims = Some 0"
  by (simp_all add: example_claims_def generateToken_claims_def example_user_def
      example_globals_def NewNumericDate_def Add_def Minute_def Second_def)

lemma example_globals_simps:
  "accessSecret example_globals = ''access-key''"
  "refreshSecret example_globals = ''refresh-key''"
  "sint (accessExpiry example_globals) = 900000000000"
  "sint (refreshExpiry example_globals) = 25200000000000"
  by (simp_all add: example_globals_def Hour_def Minute_def Second_def)

lemma ValidateToken_ref:
  "ValidateToken ref_jwt g (ref_encode key c) isRefresh clk =
     (if (if isRefresh then refreshSecret g else accessSecret g) \<noteq> key
        then Inl (errors_New ''invalid or malformed token'')
      else case ExpiresAt c of
             None \<Rightarrow> Inl Panic
           | Some e \<Rightarrow>
               if \<not> clk 0 < e then Inl (errors_New ''invalid or malformed token'')
               else if e < clk 1 then Inl (errors_New ''token has expired'')
               else Inr c)"
  by (simp add: ValidateToken_def ref_parse_signed lib_expired_def Before_def
      split: option.splits)






lemma example_refresh_claims_simps:
  "UserID example_refresh_claims = 42"
  "Username example_refresh_claims = ''alice''"
  "Email example_refresh_claims = ''alice@example.org''"
  "Subject example_refresh_claims = ''alice@example.org''"
  "ExpiresAt example_refresh_claims = Some 25200000000000"
  "IssuedAt example_refresh_claims = Some 0"
  by (simp_all add: example_refresh_claims_def generateToken_claims_def example_user_def
      example_globals_def NewNumericDate_def Add_def Hour_def Minute_def Second_def)

lemma ValidateToken_failing_jwt:
  "ValidateToken failing_jwt g tok isRefresh clk = ValidateToken ref_jwt g tok isRefresh clk"
  by (simp add: ValidateToken_def failing_jwt_def)

lemma GenerateTokens_failing_jwt:
  "GenerateTokens failing_jwt g (Some u) clk = Inl (JwtError ErrHashUnavailable)"
  by (simp add: GenerateTokens_def generateToken_def failing_jwt_def)

section \<open>Properties of validation\<close>

text \<open>
  C6. Whatever error the library reports for a token (unparsable, bad signature, wrong
  key, or any other), \<open>ValidateToken\<close> fails with the one error
  \<open>invalid or malformed token\<close>: the library's error does not reach the caller.
\<close>

theorem ValidateToken_malformed:
  assumes "ParseWithClaims lib tokenStr (if isRefresh then refreshSecret g else accessSecret g)
             (clk 0) = Inl err"
  shows "ValidateToken lib g tokenStr isRefresh clk = Inl (errors_New ''invalid or malformed token'')"
  using assms by (simp add: ValidateToken_def)

text \<open>
  On the reference library, a text that is no token and a token signed with the other
  secret fail in the library for different reasons, and in \<open>ValidateToken\<close> with the
  same error.
\<close>

theorem ValidateToken_malformed_witness:
  "ParseWithClaims ref_jwt ''not-a-token'' (accessSecret example_globals) 0 = Inl ErrTokenMalformed \<and>
   ValidateToken ref_jwt example_globals ''not-a-token'' False (\<lambda>i. 0) =
     Inl (errors_New ''invalid or malformed token'') \<and>
   ParseWithClaims ref_jwt example_token (refreshSecret example_globals) 0 =
     Inl ErrTokenSignatureInvalid \<and>
   ValidateToken ref_jwt example_globals example_token True (\<lambda>i. 0) =
     Inl (errors_New ''invalid or malformed token'')"
proof -
  have a: "ParseWithClaims ref_jwt ''not-a-token''
             (if False then refreshSecret example_globals else accessSecret example_globals)
             ((\<lambda>i. 0 :: int) (0 :: nat)) = Inl ErrTokenMalformed"
    by (simp add: ref_parse_garbage)
  have b: "ParseWithClaims ref_jwt example_token
             (if True then refreshSecret example_globals else accessSecret example_globals)
             ((\<lambda>i. 0 :: int) (0 :: nat)) = Inl ErrTokenSignatureInvalid"
    by (simp add: ref_parse_signed example_token_def example_globals_simps)
  show ?thesis
    using a b ValidateToken_malformed [OF a] ValidateToken_malformed [OF b] by simp
qed

text \<open>
  C1 does not hold of the code. A token the library signed with the secret
  \<open>ValidateToken\<close> selects, and whose \<open>ExpiresAt\<close> is at or before the current time, is
  refused by the library's own verification, and \<open>ValidateToken\<close> turns every error of
  the library into \<open>invalid or malformed token\<close> before it comes to its own expiry
  check. So with one reading \<open>t\<close> of the clock \<open>ValidateToken\<close> never fails with
  \<open>token has expired\<close> on a signed token, and it fails with
  \<open>invalid or malformed token\<close> when \<open>ExpiresAt\<close> is at or before \<open>t\<close>.
\<close>

theorem ValidateToken_expired_not_reported:
  assumes "jwt_contract lib"
    and "SignedString lib (if isRefresh then refreshSecret g else accessSecret g) c = Inr tok"
  shows "ValidateToken lib g tok isRefresh (\<lambda>i. t) \<noteq> Inl (errors_New ''token has expired'') \<and>
         (\<forall>e. ExpiresAt c = Some e \<and> e \<le> t \<longrightarrow>
            ValidateToken lib g tok isRefresh (\<lambda>i. t) =
              Inl (errors_New ''invalid or malformed token''))"
  by (auto simp add: ValidateToken_signed [OF assms refl] split: option.splits)

text \<open>
  The example token is well formed, is signed with the access secret and expires at
  900 s. Validated as an access token at 901 s it fails with
  \<open>invalid or malformed token\<close>, not with \<open>token has expired\<close>.
\<close>

theorem ValidateToken_expired_not_reported_witness:
  "jwt_contract ref_jwt \<and>
   SignedString ref_jwt (accessSecret example_globals) example_claims = Inr example_token \<and>
   ExpiresAt example_claims = Some 900000000000 \<and>
   (900000000000 :: int) \<le> 901000000000 \<and>
   ValidateToken ref_jwt example_globals example_token False (\<lambda>i. 901000000000) =
     Inl (errors_New ''invalid or malformed token'') \<and>
   ValidateToken ref_jwt example_globals example_token False (\<lambda>i. 901000000000) \<noteq>
     Inl (errors_New ''token has expired'')"
proof -
  have s: "SignedString ref_jwt (if False then refreshSecret example_globals
             else accessSecret example_globals) example_claims = Inr example_token"
    by (simp add: ref_sign_example)
  show ?thesis
    using ValidateToken_expired_not_reported [OF ref_jwt_contract s, of 901000000000]
    by (simp add: ref_jwt_contract ref_sign example_token_def example_claims_simps)
qed

text \<open>
  The explicit check itself asks whether \<open>ExpiresAt\<close> is before the current time, not
  whether it is at or before it: when the library read the clock one nanosecond before
  the expiry of the example token and the explicit check reads it at the expiry
  exactly, the token is accepted.
\<close>

lemma ValidateToken_at_expiry_accepted:
  "ValidateToken ref_jwt example_globals example_token False
     (\<lambda>i. if i = 0 then 899999999999 else 900000000000) = Inr example_claims"
  by (simp add: ValidateToken_ref example_token_def example_claims_simps
      example_globals_simps)




section \<open>Properties of refreshing\<close>

text \<open>
  C4. \<open>RefreshTokens\<close> fails with \<open>invalid or expired refresh token\<close> exactly when
  \<open>ValidateToken\<close> returns an error for the refresh token; with
  \<open>refresh token has expired\<close> exactly when validation succeeded and the second
  expiry check, on the third reading of the clock, finds \<open>ExpiresAt\<close> before it; and with
  \<open>failed to generate new tokens\<close> exactly when both passed and \<open>GenerateTokens\<close>
  returns an error for the user rebuilt from the claims.
\<close>

theorem RefreshTokens_errors:
  "(RefreshTokens lib g rt clk = Inl (errors_New ''invalid or expired refresh token'') \<longleftrightarrow>
      (\<exists>err. ValidateToken lib g rt True clk = Inl err \<and> err \<noteq> Panic)) \<and>
   (RefreshTokens lib g rt clk = Inl (errors_New ''refresh token has expired'') \<longleftrightarrow>
      (\<exists>claims e. ValidateToken lib g rt True clk = Inr claims \<and>
         ExpiresAt claims = Some e \<and> Before e (clk 2))) \<and>
   (RefreshTokens lib g rt clk = Inl (errors_New ''failed to generate new tokens'') \<longleftrightarrow>
      (\<exists>claims e err. ValidateToken lib g rt True clk = Inr claims \<and>
         ExpiresAt claims = Some e \<and> \<not> Before e (clk 2) \<and>
         GenerateTokens lib g
           (Some \<lparr>ID = UserID claims, User.Username = Username claims,
                  User.Email = Email claims\<rparr>) (advance 3 clk) = Inl err \<and>
         err \<noteq> Panic))"
  by (auto simp add: RefreshTokens_def split: sum.splits failure.splits option.splits prod.splits)

text \<open>
  The three failures on the reference library: a text that is no token; the example
  refresh token, validated at 0 s and checked again after its expiry at 25200 s; and
  the same token, in time, with a library whose signing fails.
\<close>

theorem RefreshTokens_errors_witness:
  "RefreshTokens ref_jwt example_globals ''not-a-token'' (\<lambda>i. 0) =
     Inl (errors_New ''invalid or expired refresh token'') \<and>
   RefreshTokens ref_jwt example_globals example_refresh_token
       (\<lambda>i. if i < 2 then 0 else 25201000000000) =
     Inl (errors_New ''refresh token has expired'') \<and>
   RefreshTokens failing_jwt example_globals example_refresh_token (\<lambda>i. 0) =
     Inl (errors_New ''failed to generate new tokens'')"
proof -
  have v1: "ValidateToken ref_jwt example_globals ''not-a-token'' True (\<lambda>i. 0) =
      Inl (errors_New ''invalid or malformed token'')"
    by (simp add: ValidateToken_def ref_parse_garbage)
  have v2: "ValidateToken ref_jwt example_globals example_refresh_token True clk =
      Inr example_refresh_claims" if "clk 0 = 0" and "clk 1 = 0" for clk
    using that
    by (simp add: ValidateToken_ref example_refresh_token_def example_refresh_claims_simps)
  have a: "RefreshTokens ref_jwt example_globals ''not-a-token'' (\<lambda>i. 0) =
      Inl (errors_New ''invalid or expired refresh token'')"
    using RefreshTokens_errors [of ref_jwt example_globals "''not-a-token''" "\<lambda>i. 0"] v1
    by simp
  have b: "RefreshTokens ref_jwt example_globals example_refresh_token
       (\<lambda>i. if i < 2 then 0 else 25201000000000) =
     Inl (errors_New ''refresh token has expired'')"
    using RefreshTokens_errors [of ref_jwt example_globals example_refresh_token
        "\<lambda>i. if i < 2 then 0 else 25201000000000"]
      v2 [of "\<lambda>i. if i < 2 then 0 else 25201000000000"]
    by (simp add: example_refresh_claims_simps Before_def)
  have c: "RefreshTokens failing_jwt example_globals example_refresh_token (\<lambda>i. 0) =
     Inl (errors_New ''failed to generate new tokens'')"
    using RefreshTokens_errors [of failing_jwt example_globals example_refresh_token "\<lambda>i. 0"]
      v2 [of "\<lambda>i. 0"]
    by (simp add: ValidateToken_failing_jwt GenerateTokens_failing_jwt
        example_refresh_claims_simps Before_def)
  from a b c show ?thesis by simp
qed

text \<open>
  C10. When every reading of the clock is the same instant \<open>t\<close>, a refresh token on
  which \<open>ValidateToken\<close> succeeds has an \<open>ExpiresAt\<close> that is not before \<open>t\<close>, so the
  second expiry check of \<open>RefreshTokens\<close> passes: the failure
  \<open>refresh token has expired\<close> cannot occur.
\<close>

theorem refresh_recheck_unreachable:
  "RefreshTokens lib g rt (\<lambda>i. t) \<noteq> Inl (errors_New ''refresh token has expired'') \<and>
   (\<forall>claims. ValidateToken lib g rt True (\<lambda>i. t) = Inr claims \<longrightarrow>
      (\<exists>e. ExpiresAt claims = Some e \<and> \<not> Before e t))"
  by (auto simp add: RefreshTokens_def ValidateToken_def
      split: sum.splits failure.splits option.splits prod.splits if_splits)

text \<open>
  The example refresh token at 10 s: validation succeeds, the expiry of 25200 s is not
  before 10 s, and the refresh does not fail for expiry.
\<close>

theorem refresh_recheck_unreachable_witness:
  "ValidateToken ref_jwt example_globals example_refresh_token True (\<lambda>i. 10000000000) =
     Inr example_refresh_claims \<and>
   ExpiresAt example_refresh_claims = Some 25200000000000 \<and>
   \<not> Before 25200000000000 10000000000 \<and>
   RefreshTokens ref_jwt example_globals example_refresh_token (\<lambda>i. 10000000000) \<noteq>
     Inl (errors_New ''refresh token has expired'')"
proof -
  have v: "ValidateToken ref_jwt example_globals example_refresh_token True (\<lambda>i. 10000000000) =
     Inr example_refresh_claims"
    by (simp add: ValidateToken_ref example_refresh_token_def example_refresh_claims_simps)
  show ?thesis
    using v refresh_recheck_unreachable [of ref_jwt example_globals example_refresh_token
        10000000000]
    by (simp add: example_refresh_claims_simps Before_def)
qed

section \<open>Properties of issuing\<close>

lemma NewNumericDate_mult: "NewNumericDate t = (t div 1000000000) * 1000000000"
  by (simp add: NewNumericDate_def minus_mod_eq_div_mult)

lemma NewNumericDate_strict_mono:
  assumes "b + 1000000000 \<le> a"
  shows "NewNumericDate b < NewNumericDate a"
proof -
  have "(b + 1000000000) div 1000000000 \<le> a div 1000000000"
    using assms by (rule zdiv_mono1) simp
  then have "b div 1000000000 + 1 \<le> a div 1000000000"
    by simp
  then show ?thesis
    by (simp add: NewNumericDate_mult)
qed

lemma NewNumericDate_add_seconds:
  assumes "d mod 1000000000 = 0"
  shows "NewNumericDate (t + d) = NewNumericDate t + d"
proof -
  have "(t + d) mod 1000000000 = t mod 1000000000"
    using assms by (simp add: mod_add_eq [symmetric] mod_add_right_eq [symmetric])
  then show ?thesis
    by (simp add: NewNumericDate_def)
qed

lemma NewNumericDate_le: "NewNumericDate t \<le> t"
  by (simp add: NewNumericDate_def)

lemma NewNumericDate_mono:
  assumes "a \<le> b"
  shows "NewNumericDate a \<le> NewNumericDate b"
proof -
  have "a div 1000000000 \<le> b div 1000000000"
    using assms by (rule zdiv_mono1) simp
  then show ?thesis
    by (simp add: NewNumericDate_mult)
qed

lemma NewNumericDate_gt: "t < NewNumericDate t + 1000000000"
proof -
  have "t mod 1000000000 < 1000000000"
    by simp
  then show ?thesis
    unfolding NewNumericDate_def by linarith
qed

text \<open>
  C8, as amended. The claims the issuer builds have \<open>ExpiresAt\<close> after \<open>IssuedAt\<close>
  whenever the expiry is at least one second more than the time that passes between
  the two readings of the clock; with a single reading, whenever the expiry is at
  least one second.
\<close>

theorem ExpiresAt_after_IssuedAt:
  assumes "clk 1 - clk 0 + 1000000000 \<le> sint expiry"
  shows "\<exists>e i. ExpiresAt (generateToken_claims u expiry clk) = Some e \<and>
               IssuedAt (generateToken_claims u expiry clk) = Some i \<and> i < e"
proof -
  have "clk 1 + 1000000000 \<le> clk 0 + sint expiry"
    using assms by simp
  then have "NewNumericDate (clk 1) < NewNumericDate (clk 0 + sint expiry)"
    by (rule NewNumericDate_strict_mono)
  then show ?thesis
    by (simp add: generateToken_claims_def Add_def)
qed

text \<open>The example claims: issued at 0 s with an expiry of 900 s.\<close>

theorem ExpiresAt_after_IssuedAt_witness:
  "(0 :: int) - 0 + 1000000000 \<le> sint (accessExpiry example_globals) \<and>
   ExpiresAt example_claims = Some 900000000000 \<and>
   IssuedAt example_claims = Some 0 \<and>
   (\<exists>e i. ExpiresAt example_claims = Some e \<and> IssuedAt example_claims = Some i \<and> i < e)"
  using ExpiresAt_after_IssuedAt [of "\<lambda>i. 0" "accessExpiry example_globals" example_user,
      folded example_claims_def]
  by (simp add: example_globals_simps example_claims_simps)

text \<open>
  C8 as stated fails for an expiry of zero, which \<open>parseDuration\<close> returns for a
  configured timeout of 0: the claims issued at 5 s then have
  \<open>ExpiresAt = IssuedAt = 5 s\<close>.
\<close>

theorem ExpiresAt_after_IssuedAt_counterexample:
  "ExpiresAt (generateToken_claims example_user (fst (parseDuration 0 ''SECONDS''))
     (\<lambda>i. 5000000000)) = Some 5000000000 \<and>
   IssuedAt (generateToken_claims example_user (fst (parseDuration 0 ''SECONDS''))
     (\<lambda>i. 5000000000)) = Some 5000000000 \<and>
   \<not> (5000000000 :: int) < 5000000000"
  by (simp add: generateToken_claims_def parseDuration_def NewNumericDate_def Add_def)

text \<open>
  With a library that meets the contract the issuer succeeds, and its two tokens are
  the signed claims it built.
\<close>

lemma GenerateTokens_signed:
  assumes "jwt_contract lib"
  shows "\<exists>a r. GenerateTokens lib g (Some u) clk = Inr (a, r) \<and>
     SignedString lib (accessSecret g) (generateToken_claims u (accessExpiry g) clk) = Inr a \<and>
     SignedString lib (refreshSecret g)
       (generateToken_claims u (refreshExpiry g) (advance 2 clk)) = Inr r"
proof -
  obtain a where a: "SignedString lib (accessSecret g)
      (generateToken_claims u (accessExpiry g) clk) = Inr a"
    using contract_sign [OF assms] by blast
  obtain r where r: "SignedString lib (refreshSecret g)
      (generateToken_claims u (refreshExpiry g) (advance 2 clk)) = Inr r"
    using contract_sign [OF assms] by blast
  show ?thesis
    using a r by (simp add: GenerateTokens_def generateToken_def)
qed

text \<open>
  C2. Let the library meet the contract, let the access expiry be a whole number of
  seconds, as \<open>parseDuration\<close> makes it, and let the token be validated before it
  expires. Then \<open>GenerateTokens\<close> succeeds for every user, and validating its access
  token as an access token succeeds with claims that carry the user's ID, name and
  email, the email as subject, and an \<open>ExpiresAt\<close> and \<open>IssuedAt\<close> whose difference is
  the access expiry less the whole seconds that passed between the issuer's two
  readings of the clock: the expiry exactly when both readings fall in one second, and
  with a clock that does not run backwards never more than the expiry, and less by under
  one second more than the time between the two readings.
  \<open>GenerateTokens\<close> takes four readings of the clock, \<open>ValidateToken\<close> the next two.
\<close>

theorem access_token_roundtrip:
  assumes "jwt_contract lib"
    and "sint (accessExpiry g) mod 1000000000 = 0"
    and "clk 4 < NewNumericDate (Add (clk 0) (accessExpiry g))"
    and "clk 5 \<le> NewNumericDate (Add (clk 0) (accessExpiry g))"
  shows "\<exists>accessToken refreshToken claims e i.
           GenerateTokens lib g (Some u) clk = Inr (accessToken, refreshToken) \<and>
           ValidateToken lib g accessToken False (advance 4 clk) = Inr claims \<and>
           UserID claims = ID u \<and>
           Username claims = User.Username u \<and>
           Email claims = User.Email u \<and>
           Subject claims = User.Email u \<and>
           ExpiresAt claims = Some e \<and>
           IssuedAt claims = Some i \<and>
           e - i = sint (accessExpiry g) - (NewNumericDate (clk 1) - NewNumericDate (clk 0)) \<and>
           (NewNumericDate (clk 1) = NewNumericDate (clk 0) \<longrightarrow> e - i = sint (accessExpiry g)) \<and>
           (clk 0 \<le> clk 1 \<longrightarrow>
              e - i \<le> sint (accessExpiry g) \<and>
              sint (accessExpiry g) - (clk 1 - clk 0) - 1000000000 < e - i)"
proof -
  let ?c = "generateToken_claims u (accessExpiry g) clk"
  obtain a r where gen: "GenerateTokens lib g (Some u) clk = Inr (a, r)"
    and sa: "SignedString lib (accessSecret g) ?c = Inr a"
    using GenerateTokens_signed [OF assms(1)] by blast
  have ex: "ExpiresAt ?c = Some (NewNumericDate (Add (clk 0) (accessExpiry g)))"
    by (simp add: generateToken_claims_def)
  have val: "ValidateToken lib g a False (advance 4 clk) = Inr ?c"
    using assms(3,4) by (simp add: ValidateToken_signed [OF assms(1) sa] ex advance_def)
  have diff: "NewNumericDate (Add (clk 0) (accessExpiry g)) - NewNumericDate (clk 1) =
      sint (accessExpiry g) - (NewNumericDate (clk 1) - NewNumericDate (clk 0))"
    using NewNumericDate_add_seconds [OF assms(2), of "clk 0"] by (simp add: Add_def)
  have bounds: "0 \<le> NewNumericDate (clk 1) - NewNumericDate (clk 0) \<and>
      NewNumericDate (clk 1) - NewNumericDate (clk 0) < clk 1 - clk 0 + 1000000000"
    if "clk 0 \<le> clk 1"
    using NewNumericDate_mono [OF that] NewNumericDate_le [of "clk 1"]
      NewNumericDate_gt [of "clk 0"]
    by linarith
  show ?thesis
    using gen val diff bounds by (auto simp add: generateToken_claims_def)
qed

text \<open>
  The example configuration on the reference library, every reading of the clock at
  1.5 s: the token validates and its lifetime is the 900 s configured.
\<close>

theorem access_token_roundtrip_witness:
  "jwt_contract ref_jwt \<and>
   sint (accessExpiry example_globals) mod 1000000000 = 0 \<and>
   (1500000000 :: int) < NewNumericDate (Add 1500000000 (accessExpiry example_globals)) \<and>
   901000000000 - 1000000000 = sint (accessExpiry example_globals) \<and>
   (\<exists>accessToken refreshToken claims.
      GenerateTokens ref_jwt example_globals (Some example_user) (\<lambda>i. 1500000000) =
        Inr (accessToken, refreshToken) \<and>
      ValidateToken ref_jwt example_globals accessToken False (\<lambda>i. 1500000000) = Inr claims \<and>
      UserID claims = 42 \<and>
      Username claims = ''alice'' \<and>
      Email claims = ''alice@example.org'' \<and>
      Subject claims = ''alice@example.org'' \<and>
      ExpiresAt claims = Some 901000000000 \<and>
      IssuedAt claims = Some 1000000000)"
proof -
  have h2: "sint (accessExpiry example_globals) mod 1000000000 = 0"
    by (simp add: example_globals_simps)
  have h3: "(\<lambda>i. 1500000000 :: int) 4 <
      NewNumericDate (Add ((\<lambda>i. 1500000000) 0) (accessExpiry example_globals))"
    by (simp add: NewNumericDate_def Add_def example_globals_simps)
  have h4: "(\<lambda>i. 1500000000 :: int) 5 \<le>
      NewNumericDate (Add ((\<lambda>i. 1500000000) 0) (accessExpiry example_globals))"
    by (simp add: NewNumericDate_def Add_def example_globals_simps)
  obtain a r c e i where
    "GenerateTokens ref_jwt example_globals (Some example_user) (\<lambda>i. 1500000000) = Inr (a, r)"
    "ValidateToken ref_jwt example_globals a False (advance 4 (\<lambda>i. 1500000000)) = Inr c"
    "UserID c = ID example_user" "Username c = User.Username example_user"
    "Email c = User.Email example_user" "Subject c = User.Email example_user"
    "ExpiresAt c = Some e" "IssuedAt c = Some i"
    "e - i = sint (accessExpiry example_globals) -
       (NewNumericDate ((\<lambda>i. 1500000000) 1) - NewNumericDate ((\<lambda>i. 1500000000) 0))"
    using access_token_roundtrip [OF ref_jwt_contract h2 h3 h4, of example_user] by auto
  moreover have "ValidateToken ref_jwt example_globals a False (\<lambda>i. 1500000000) = Inr c
      \<Longrightarrow> IssuedAt c = Some 1000000000"
    using calculation(1)
    by (auto simp add: GenerateTokens_def generateToken_def ref_sign ValidateToken_ref
        generateToken_claims_def NewNumericDate_def split: if_splits)
  ultimately show ?thesis
    using h2 h3
    by (auto simp add: ref_jwt_contract advance_def example_user_def example_globals_simps)
qed

text \<open>
  C5. Let the library meet the contract. Take a refresh token the library signed with
  the refresh secret whose \<open>ExpiresAt\<close> lies after the reading of the clock the library
  takes and not before the two readings of the explicit checks. Then \<open>RefreshTokens\<close>
  succeeds with a new pair of tokens, each of which validates on its own, as an access
  and as a refresh token, at any two readings before its expiry, with claims that carry
  the \<open>UserID\<close>, \<open>Username\<close> and \<open>Email\<close> of the claims of the original token.
\<close>

theorem refresh_roundtrip:
  assumes "jwt_contract lib"
    and "SignedString lib (refreshSecret g) c = Inr rt"
    and "ExpiresAt c = Some e"
    and "clk 0 < e" and "clk 1 \<le> e" and "clk 2 \<le> e"
    and "va 0 < NewNumericDate (Add (clk 3) (accessExpiry g))"
    and "va 1 \<le> NewNumericDate (Add (clk 3) (accessExpiry g))"
    and "vr 0 < NewNumericDate (Add (clk 5) (refreshExpiry g))"
    and "vr 1 \<le> NewNumericDate (Add (clk 5) (refreshExpiry g))"
  shows "\<exists>newAccessToken newRefreshToken ca cr.
           RefreshTokens lib g rt clk = Inr (newAccessToken, newRefreshToken) \<and>
           ValidateToken lib g newAccessToken False va = Inr ca \<and>
           ValidateToken lib g newRefreshToken True vr = Inr cr \<and>
           UserID ca = UserID c \<and> Username ca = Username c \<and> Email ca = Email c \<and>
           UserID cr = UserID c \<and> Username cr = Username c \<and> Email cr = Email c"
proof -
  let ?u = "\<lparr>ID = UserID c, User.Username = Username c, User.Email = Email c\<rparr>"
  let ?ca = "generateToken_claims ?u (accessExpiry g) (advance 3 clk)"
  let ?cr = "generateToken_claims ?u (refreshExpiry g) (advance 2 (advance 3 clk))"
  have val: "ValidateToken lib g rt True clk = Inr c"
    using assms(3-5) by (simp add: ValidateToken_signed [OF assms(1,2)])
  obtain a r where gen: "GenerateTokens lib g (Some ?u) (advance 3 clk) = Inr (a, r)"
    and sa: "SignedString lib (accessSecret g) ?ca = Inr a"
    and sr: "SignedString lib (refreshSecret g) ?cr = Inr r"
    using GenerateTokens_signed [OF assms(1)] by blast
  have ref: "RefreshTokens lib g rt clk = Inr (a, r)"
    using val gen assms(3,6) by (simp add: RefreshTokens_def Before_def)
  have exa: "ExpiresAt ?ca = Some (NewNumericDate (Add (clk 3) (accessExpiry g)))"
    by (simp add: generateToken_claims_def advance_def)
  have exr: "ExpiresAt ?cr = Some (NewNumericDate (Add (clk 5) (refreshExpiry g)))"
    by (simp add: generateToken_claims_def advance_def)
  have va: "ValidateToken lib g a False va = Inr ?ca"
    using assms(7,8) by (simp add: ValidateToken_signed [OF assms(1) sa] exa)
  have vr: "ValidateToken lib g r True vr = Inr ?cr"
    using assms(9,10) by (simp add: ValidateToken_signed [OF assms(1) sr] exr)
  show ?thesis
    using ref va vr by (simp add: generateToken_claims_def)
qed

text \<open>
  The example refresh token on the reference library, every reading of the clock at
  10 s, the new tokens validated at 20 s.
\<close>

theorem refresh_roundtrip_witness:
  "jwt_contract ref_jwt \<and>
   SignedString ref_jwt (refreshSecret example_globals) example_refresh_claims =
     Inr example_refresh_token \<and>
   ExpiresAt example_refresh_claims = Some 25200000000000 \<and>
   (\<exists>newAccessToken newRefreshToken ca cr.
      RefreshTokens ref_jwt example_globals example_refresh_token (\<lambda>i. 10000000000) =
        Inr (newAccessToken, newRefreshToken) \<and>
      ValidateToken ref_jwt example_globals newAccessToken False (\<lambda>i. 20000000000) = Inr ca \<and>
      ValidateToken ref_jwt example_globals newRefreshToken True (\<lambda>i. 20000000000) = Inr cr \<and>
      UserID ca = 42 \<and> Username ca = ''alice'' \<and> Email ca = ''alice@example.org'' \<and>
      UserID cr = 42 \<and> Username cr = ''alice'' \<and> Email cr = ''alice@example.org'')"
proof -
  have s: "SignedString ref_jwt (refreshSecret example_globals) example_refresh_claims =
     Inr example_refresh_token"
    by (simp add: ref_sign example_refresh_token_def)
  have a: "(\<lambda>i. 20000000000 :: int) j <
      NewNumericDate (Add ((\<lambda>i. 10000000000) k) (accessExpiry example_globals))" for j k :: nat
    by (simp add: NewNumericDate_def Add_def example_globals_simps)
  have r: "(\<lambda>i. 20000000000 :: int) j <
      NewNumericDate (Add ((\<lambda>i. 10000000000) k) (refreshExpiry example_globals))" for j k :: nat
    by (simp add: NewNumericDate_def Add_def example_globals_simps)
  show ?thesis
    using s refresh_roundtrip [OF ref_jwt_contract s example_refresh_claims_simps(5),
        of "\<lambda>i. 10000000000" "\<lambda>i. 20000000000" "\<lambda>i. 20000000000",
        OF _ _ _ a less_imp_le [OF a] r less_imp_le [OF r]]
    by (simp add: ref_jwt_contract example_refresh_claims_simps)
qed

section \<open>Properties of the logger\<close>

lemma setupLogging_infoLog:
  "setupLogging True (\<lambda>f. True) st = Some st' \<Longrightarrow>
   infoLog st' = Some \<lparr>prefix = ''INFO: '', writer = [Stdout, InfoFile]\<rparr>"
  by (auto simp add: setupLogging_def openLogFile_def Let_def)

text \<open>
  C9. Once \<open>setupLogging\<close> has set the loggers, \<open>Log\<close> with a level other than
  \<open>INFO\<close>, \<open>WARNING\<close> and \<open>ERROR\<close> does what \<open>infoLog.Println\<close> does with the entry and
  nothing else: the entry is written once to each sink of the INFO logger, and every
  other sink, those of the WARNING and ERROR loggers among them, is left as it was.
\<close>

theorem Log_default_level:
  assumes "level \<noteq> ''INFO''" and "level \<noteq> ''WARNING''" and "level \<noteq> ''ERROR''"
    and "infoLog st = Some l"
  shows "\<exists>st'. Log level message caller stamp st = Inr st' \<and>
           st' = st\<lparr>written := written st'\<rparr> \<and>
           (\<forall>k. written st' k =
              (if k \<in> set (writer l)
               then written st k @
                 [prefix l @ stamp @ '' '' @ level @ '' ['' @ getCallerInfo caller @ '']: '' @ message]
               else written st k))"
  using assms by (simp add: Log_def Println_def)

text \<open>
  After \<open>setupLogging\<close> on a system with nothing written yet, an entry of the level
  \<open>DEBUG\<close> is on the console and in \<open>info.log\<close>, and \<open>warn.log\<close>, \<open>error.log\<close> and the
  error stream are empty.
\<close>

theorem Log_default_level_witness:
  "(\<exists>st st'.
      setupLogging True (\<lambda>f. True)
        \<lparr>infoLog = None, warnLog = None, errorLog = None, stdLogOutput = [Stderr],
         written = (\<lambda>k. [])\<rparr> = Some st \<and>
      infoLog st = Some \<lparr>prefix = ''INFO: '', writer = [Stdout, InfoFile]\<rparr> \<and>
      Log ''DEBUG'' ''started'' (Some ''main.main'') ''2024/01/01 00:00:00'' st = Inr st' \<and>
      written st' Stdout = [''INFO: 2024/01/01 00:00:00 DEBUG [main.main]: started''] \<and>
      written st' InfoFile = [''INFO: 2024/01/01 00:00:00 DEBUG [main.main]: started''] \<and>
      written st' WarnFile = [] \<and>
      written st' ErrorFile = [] \<and>
      written st' Stderr = [])"
proof -
  let ?st0 = "\<lparr>infoLog = None, warnLog = None, errorLog = None, stdLogOutput = [Stderr],
         written = (\<lambda>k. [])\<rparr>"
  obtain st where st: "setupLogging True (\<lambda>f. True) ?st0 = Some st"
    by (simp add: setupLogging_def openLogFile_def Let_def)
  have w: "written st = (\<lambda>k. [])"
    using st by (auto simp add: setupLogging_def openLogFile_def Let_def)
  have l: "infoLog st = Some \<lparr>prefix = ''INFO: '', writer = [Stdout, InfoFile]\<rparr>"
    using st by (rule setupLogging_infoLog)
  obtain st' where "Log ''DEBUG'' ''started'' (Some ''main.main'') ''2024/01/01 00:00:00'' st = Inr st'"
    and "\<forall>k. written st' k =
              (if k \<in> set (writer \<lparr>prefix = ''INFO: '', writer = [Stdout, InfoFile]\<rparr>)
               then written st k @
                 [prefix \<lparr>prefix = ''INFO: '', writer = [Stdout, InfoFile]\<rparr> @
                  ''2024/01/01 00:00:00'' @ '' '' @ ''DEBUG'' @ '' ['' @
                  getCallerInfo (Some ''main.main'') @ '']: '' @ ''started'']
               else written st k)"
    using Log_default_level [of "''DEBUG''" st _ "''started''" "Some ''main.main''"
        "''2024/01/01 00:00:00''", OF _ _ _ l]
    by auto
  then show ?thesis
    using st l w by (simp add: getCallerInfo_def)
qed

end
